theory Spec2Isabelle
  imports Main
begin

section \<open>The circus controller (circus/controller.py)\<close>

text \<open>
  The controller is a Python object that receives two-part frames from a ZMQ ROUTER
  socket, queues them as jobs, and dispatches one job per wakeup against a command
  registry and an arbiter. The embedding below follows the methods of
  \<^verbatim>\<open>BaseController\<close> and \<^verbatim>\<open>Controller\<close> one by one. Mutation of
  \<^verbatim>\<open>self\<close> is explicit state passing on a record; every call on a collaborator
  (stream, socket, timer, signal handler, arbiter) is appended to a trace, so that the
  order of effects can be stated; a Python exception that leaves a method is the
  outcome \<open>Raise\<close>.
\<close>

subsection \<open>Python values\<close>

text \<open>
  Values decoded from a message and values returned by commands. \<open>JNull\<close> is Python's
  \<^verbatim>\<open>None\<close>; a dict is an association list read with \<open>map_of\<close>. A command
  result is taken to be a value of this type, so the serialiser accepts every response
  the controller builds.
\<close>

datatype json =
    JNull
  | JBool bool
  | JNum int
  | JStr string
  | JArr "json list"
  | JObj "(string \<times> json) list"

text \<open>\<^verbatim>\<open>d.get(key, default)\<close>\<close>

definition dict_get :: "(string \<times> json) list \<Rightarrow> string \<Rightarrow> json \<Rightarrow> json" where
  "dict_get d k dflt = (case map_of d k of None \<Rightarrow> dflt | Some v \<Rightarrow> v)"

text \<open>\<^verbatim>\<open>d[k] = v\<close> and \<^verbatim>\<open>d.update(props)\<close>: an existing key keeps its place.\<close>

fun dict_set :: "string \<Rightarrow> json \<Rightarrow> (string \<times> json) list \<Rightarrow> (string \<times> json) list" where
  "dict_set k v [] = [(k, v)]"
| "dict_set k v ((k', v') # d) = (if k = k' then (k, v) # d else (k', v') # dict_set k v d)"

fun dict_update :: "(string \<times> json) list \<Rightarrow> (string \<times> json) list \<Rightarrow> (string \<times> json) list" where
  "dict_update d [] = d"
| "dict_update d ((k, v) # props) = dict_update (dict_set k v d) props"

text \<open>\<^verbatim>\<open>isinstance(resp, (dict, list,))\<close>\<close>

fun is_dict_or_list :: "json \<Rightarrow> bool" where
  "is_dict_or_list (JObj d) = True"
| "is_dict_or_list (JArr xs) = True"
| "is_dict_or_list v = False"

text \<open>
  \<^verbatim>\<open>str.lower()\<close> on the ASCII letters (strings are lists of 8-bit characters here; Python
  also lowers non-ASCII letters of a unicode string, which no command name compared
  below contains).
\<close>

definition lower_char :: "char \<Rightarrow> char" where
  "lower_char c =
     (case map_of (zip ''ABCDEFGHIJKLMNOPQRSTUVWXYZ'' ''abcdefghijklmnopqrstuvwxyz'') c of
        Some l \<Rightarrow> l
      | None \<Rightarrow> c)"

definition lower :: "string \<Rightarrow> string" where
  "lower s = map lower_char s"

text \<open>\<^verbatim>\<open>msg.strip()\<close>: removes leading and trailing ASCII whitespace.\<close>

definition is_space :: "char \<Rightarrow> bool" where
  "is_space c = (c \<in> set [CHR '' '', CHR 0x09, CHR 0x0A, CHR 0x0B, CHR 0x0C, CHR 0x0D])"

definition py_strip :: "string \<Rightarrow> string" where
  "py_strip s = rev (dropWhile is_space (rev (dropWhile is_space s)))"

subsection \<open>Exceptions and outcomes\<close>

text \<open>
  An exception is the class that decides which \<^verbatim>\<open>except\<close> clause takes it, with
  \<^verbatim>\<open>str(e)\<close>. \<^verbatim>\<open>ValueError\<close> of the decoder, \<^verbatim>\<open>KeyError\<close> of the registry and
  \<^verbatim>\<open>Empty\<close> of the queue never leave the method that catches them and are the
  \<open>None\<close> of an option. The source is Python 2 (it uses \<^verbatim>\<open>unicode\<close>), where
  \<^verbatim>\<open>IOError\<close> and \<^verbatim>\<open>OSError\<close> are different classes.
\<close>

datatype exc_type = MessageError | OSError | IOError | ZMQError | AttributeError | OtherError

datatype exn = Exc exc_type string

fun exc_class :: "exn \<Rightarrow> exc_type" where
  "exc_class (Exc t m) = t"

fun exc_str :: "exn \<Rightarrow> string" where
  "exc_str (Exc t m) = m"

datatype 'r outcome = Return 'r | Raise exn

subsection \<open>Collaborators\<close>

text \<open>The error codes of \<^verbatim>\<open>circus.commands.errors\<close>.\<close>

datatype errno =
    NOT_SPECIFIED
  | INVALID_JSON
  | UNKNOWN_COMMAND
  | MESSAGE_ERROR
  | OS_ERROR
  | COMMAND_ERROR
  | BAD_MSG_DATA_ERROR

text \<open>
  A command descriptor: \<^verbatim>\<open>validate(properties)\<close> returns or raises;
  \<^verbatim>\<open>execute(arbiter, properties)\<close> returns a value or raises, and may change the
  arbiter. The arbiter's state is the type parameter.
\<close>

record 'a command =
  validate :: "json \<Rightarrow> exn option"
  execute :: "'a \<Rightarrow> json \<Rightarrow> (exn + json) \<times> 'a"

text \<open>
  What the controller's libraries and collaborators do is a parameter of the model:
  the JSON codec, the integer of each error code, \<^verbatim>\<open>%r\<close> formatting,
  \<^verbatim>\<open>traceback.format_exc()\<close>, whether \<^verbatim>\<open>stream.flush()\<close> and
  \<^verbatim>\<open>stream.close()\<close> raise, and the arbiter's two operations.
  \<open>json_loads\<close> is \<open>None\<close> where \<^verbatim>\<open>json.loads\<close> raises \<^verbatim>\<open>ValueError\<close>.
\<close>

record 'a env =
  json_loads :: "string \<Rightarrow> json option"
  json_dumps :: "json \<Rightarrow> string"
  errno_code :: "errno \<Rightarrow> int"
  repr_name :: "json \<Rightarrow> string"
  repr_msg :: "string \<Rightarrow> string"
  format_exc :: "exn \<Rightarrow> string"
  stream_flush :: "exn option"
  stream_close :: "exn option"
  arbiter_stop :: "'a \<Rightarrow> 'a"
  manage_watchers :: "'a \<Rightarrow> 'a"

subsection \<open>The controller's state\<close>

type_synonym cid = string

type_synonym job = "cid option \<times> string"

text \<open>
  Calls on collaborators, in the order they are made. \<open>Send c payload\<close> is the pair
  \<^verbatim>\<open>stream.send(cid, zmq.SNDMORE); stream.send(resp)\<close> of \<^verbatim>\<open>send_response\<close>: the
  response handed to the transport. A \<^verbatim>\<open>ZMQError\<close> raised there is caught and logged
  by \<^verbatim>\<open>send_response\<close> itself, so nothing after the call depends on it.
\<close>

datatype event =
    Send cid string
  | StreamFlush
  | StreamClose
  | SocketClose
  | SocketBind
  | TimerStart
  | TimerStop
  | SysHdlStop
  | ArbiterStop
  | ManageWatchers

record 'a controller =
  started :: bool
  jobs :: "job list"
  commands :: "string \<Rightarrow> 'a command option"
  arbiter :: 'a
  trace :: "event list"

definition emit :: "event \<Rightarrow> 'a controller \<Rightarrow> 'a controller" where
  "emit ev s = s\<lparr>trace := trace s @ [ev]\<rparr>"

text \<open>The responses handed to the transport, in order.\<close>

fun responses :: "event list \<Rightarrow> (cid \<times> string) list" where
  "responses [] = []"
| "responses (Send c p # evs) = (c, p) # responses evs"
| "responses (ev # evs) = responses evs"

text \<open>\<^verbatim>\<open>__init__\<close>: not started, an empty queue, the registry and the arbiter.\<close>

definition init :: "(string \<Rightarrow> 'a command option) \<Rightarrow> 'a \<Rightarrow> 'a controller" where
  "init cmds arb = \<lparr>started = False, jobs = [], commands = cmds, arbiter = arb, trace = []\<rparr>"

subsection \<open>Response envelopes\<close>

text \<open>
  Modelled from the spec: \<^verbatim>\<open>ok\<close> of \<^verbatim>\<open>circus.commands\<close> is not part of the
  source file. The spec gives the success document as
  \<^verbatim>\<open>{"status": "ok", ...extra fields...}\<close>: a result of nothing is the minimal ok
  envelope, a mapping result is merged into it.
\<close>

definition ok :: "json \<Rightarrow> json" where
  "ok props =
     (case props of
        JObj d \<Rightarrow> JObj (dict_update [(''status'', JStr ''ok'')] d)
      | _ \<Rightarrow> JObj [(''status'', JStr ''ok'')])"

text \<open>
  Modelled from the spec: \<^verbatim>\<open>error\<close> of \<^verbatim>\<open>circus.commands\<close> is not part of
  the source file. The spec gives the failure document as
  \<^verbatim>\<open>{"status": "error", "reason": string, "traceback": string|null, "errno": integer}\<close>.
\<close>

definition error :: "'a env \<Rightarrow> string \<Rightarrow> string option \<Rightarrow> errno \<Rightarrow> json" where
  "error env reason tb en =
     JObj [(''status'', JStr ''error''),
           (''reason'', JStr reason),
           (''traceback'', (case tb of None \<Rightarrow> JNull | Some t \<Rightarrow> JStr t)),
           (''errno'', JNum (errno_code env en))]"

subsection \<open>Sending\<close>

text \<open>
  \<^verbatim>\<open>send_response(cid, msg, resp, cast)\<close>: nothing for a cast, nothing without an
  identity; a response that is not a string is serialised first. \<open>msg\<close> is only
  logged.
\<close>

definition send_response ::
  "'a env \<Rightarrow> cid option \<Rightarrow> string \<Rightarrow> json \<Rightarrow> bool \<Rightarrow> 'a controller \<Rightarrow> 'a controller" where
  "send_response env cid msg resp cast s =
     (if cast then s
      else case cid of
        None \<Rightarrow> s
      | Some c \<Rightarrow>
          emit (Send c (case resp of JStr t \<Rightarrow> t | _ \<Rightarrow> json_dumps env resp)) s)"

definition send_error ::
  "'a env \<Rightarrow> cid option \<Rightarrow> string \<Rightarrow> string \<Rightarrow> string option \<Rightarrow> bool \<Rightarrow> errno
     \<Rightarrow> 'a controller \<Rightarrow> 'a controller" where
  "send_error env cid msg reason tb cast en s =
     send_response env cid msg (error env reason tb en) cast s"

definition send_ok ::
  "'a env \<Rightarrow> cid option \<Rightarrow> string \<Rightarrow> json \<Rightarrow> bool \<Rightarrow> 'a controller \<Rightarrow> 'a controller" where
  "send_ok env cid msg props cast s = send_response env cid msg (ok props) cast s"

subsection \<open>Executing a command\<close>

text \<open>
  The error document that each \<^verbatim>\<open>except\<close> clause of
  \<^verbatim>\<open>Controller.execute_command\<close> builds: \<^verbatim>\<open>MessageError\<close>,
  \<^verbatim>\<open>OSError\<close>, and the bare \<^verbatim>\<open>except:\<close>.
\<close>

definition exc_reply :: "'a env \<Rightarrow> string \<Rightarrow> exn \<Rightarrow> json" where
  "exc_reply env msg e =
     (case exc_class e of
        MessageError \<Rightarrow> error env (exc_str e) None MESSAGE_ERROR
      | OSError \<Rightarrow> error env (exc_str e) None OS_ERROR
      | _ \<Rightarrow> error env (''command '' @ repr_msg env msg @ '': '' @ exc_str e)
               (Some (format_exc env e)) COMMAND_ERROR)"

text \<open>
  The three \<^verbatim>\<open>except\<close> clauses around \<^verbatim>\<open>validate\<close> and \<^verbatim>\<open>execute\<close> in
  \<^verbatim>\<open>Controller.execute_command\<close>. Each sends an error and returns what
  \<^verbatim>\<open>send_error\<close> returns, which is \<^verbatim>\<open>None\<close>.
\<close>

definition handle_exc ::
  "'a env \<Rightarrow> cid option \<Rightarrow> string \<Rightarrow> bool \<Rightarrow> exn \<Rightarrow> 'a controller
     \<Rightarrow> json outcome \<times> 'a controller" where
  "handle_exc env cid msg cast e s =
     (case exc_class e of
        MessageError \<Rightarrow>
          (Return JNull, send_error env cid msg (exc_str e) None cast MESSAGE_ERROR s)
      | OSError \<Rightarrow>
          (Return JNull, send_error env cid msg (exc_str e) None cast OS_ERROR s)
      | _ \<Rightarrow>
          (Return JNull,
           send_error env cid msg (''command '' @ repr_msg env msg @ '': '' @ exc_str e)
             (Some (format_exc env e)) cast COMMAND_ERROR s))"

text \<open>
  \<^verbatim>\<open>Controller.execute_command\<close>. \<^verbatim>\<open>cmd_name.lower()\<close> is evaluated inside a
  \<^verbatim>\<open>try\<close> that catches \<^verbatim>\<open>KeyError\<close> only: a name that is not a string raises
  \<^verbatim>\<open>AttributeError\<close>, which leaves the method.
\<close>

definition execute_command ::
  "'a env \<Rightarrow> json \<Rightarrow> json \<Rightarrow> cid option \<Rightarrow> string \<Rightarrow> bool \<Rightarrow> 'a controller
     \<Rightarrow> json outcome \<times> 'a controller" where
  "execute_command env cmd_name properties cid msg cast s =
     (case cmd_name of
        JStr n \<Rightarrow>
          (case commands s (lower n) of
             None \<Rightarrow>
               (Return JNull,
                send_error env cid msg (''unknown command: '' @ repr_name env cmd_name) None
                  cast UNKNOWN_COMMAND s)
           | Some cmd \<Rightarrow>
               (case validate cmd properties of
                  Some e \<Rightarrow> handle_exc env cid msg cast e s
                | None \<Rightarrow>
                    (case execute cmd (arbiter s) properties of
                       (Inl e, a) \<Rightarrow> handle_exc env cid msg cast e (s\<lparr>arbiter := a\<rparr>)
                     | (Inr r, a) \<Rightarrow> (Return r, s\<lparr>arbiter := a\<rparr>))))
      | _ \<Rightarrow> (Raise (Exc AttributeError ''lower''), s))"

subsection \<open>Dispatch\<close>

text \<open>\<^verbatim>\<open>self.arbiter.stop()\<close>\<close>

definition stop_arbiter :: "'a env \<Rightarrow> 'a controller \<Rightarrow> 'a controller" where
  "stop_arbiter env s = emit ArbiterStop (s\<lparr>arbiter := arbiter_stop env (arbiter s)\<rparr>)"

text \<open>
  The end of \<^verbatim>\<open>dispatch\<close>, after \<^verbatim>\<open>send_ok\<close>: the test
  \<^verbatim>\<open>cmd_name.lower() == "quit"\<close>, the flush when there is an identity, and
  \<^verbatim>\<open>arbiter.stop()\<close>.
\<close>

definition quit_check ::
  "'a env \<Rightarrow> json \<Rightarrow> cid option \<Rightarrow> 'a controller \<Rightarrow> unit outcome \<times> 'a controller" where
  "quit_check env cmd_name cid s =
     (case cmd_name of
        JStr n \<Rightarrow>
          (if lower n = ''quit'' then
             (case cid of
                None \<Rightarrow> (Return (), stop_arbiter env s)
              | Some c \<Rightarrow>
                  (case stream_flush env of
                     Some e \<Rightarrow> (Raise e, emit StreamFlush s)
                   | None \<Rightarrow> (Return (), stop_arbiter env (emit StreamFlush s))))
           else (Return (), s))
      | _ \<Rightarrow> (Raise (Exc AttributeError ''lower''), s))"

text \<open>
  \<^verbatim>\<open>BaseController.dispatch\<close>. A decoded message that is not a dict has no
  \<^verbatim>\<open>get\<close>: \<^verbatim>\<open>AttributeError\<close>. The error sent for an undecodable message does not
  pass \<^verbatim>\<open>cast\<close>, which is not known at that point.
\<close>

definition dispatch ::
  "'a env \<Rightarrow> job \<Rightarrow> 'a controller \<Rightarrow> unit outcome \<times> 'a controller" where
  "dispatch env job s =
     (case job of (cid, msg) \<Rightarrow>
       (case json_loads env msg of
          None \<Rightarrow>
            (Return (), send_error env cid msg ''json invalid'' None False INVALID_JSON s)
        | Some (JObj d) \<Rightarrow>
            (let cmd_name = dict_get d ''command'' JNull;
                 properties = dict_get d ''properties'' (JObj []);
                 cast = (dict_get d ''msg_type'' JNull = JStr ''cast'')
             in case execute_command env cmd_name properties cid msg cast s of
                  (Raise e, s1) \<Rightarrow> (Raise e, s1)
                | (Return r, s1) \<Rightarrow>
                    (let resp = (if r = JNull then ok JNull else r)
                     in if \<not> is_dict_or_list resp then
                          (Return (),
                           send_error env cid msg ''server error'' None cast
                             BAD_MSG_DATA_ERROR s1)
                        else
                          (let resp' = (case resp of
                                          JArr xs \<Rightarrow> JObj [(''results'', resp)]
                                        | _ \<Rightarrow> resp)
                           in quit_check env cmd_name cid
                                (send_ok env cid msg resp' cast s1))))
        | Some _ \<Rightarrow> (Raise (Exc AttributeError ''get''), s)))"

subsection \<open>The queue and the wakeup\<close>

text \<open>\<^verbatim>\<open>BaseController.wakeup\<close>: a non-blocking \<^verbatim>\<open>get\<close>, then dispatch of the job.\<close>

definition base_wakeup :: "'a env \<Rightarrow> 'a controller \<Rightarrow> unit outcome \<times> 'a controller" where
  "base_wakeup env s =
     (case jobs s of
        [] \<Rightarrow> (Return (), s)
      | job # rest \<Rightarrow> dispatch env job (s\<lparr>jobs := rest\<rparr>))"

text \<open>\<^verbatim>\<open>Controller.wakeup\<close>: the base wakeup, then \<^verbatim>\<open>arbiter.manage_watchers()\<close>.\<close>

definition wakeup :: "'a env \<Rightarrow> 'a controller \<Rightarrow> unit outcome \<times> 'a controller" where
  "wakeup env s =
     (case base_wakeup env s of
        (Raise e, s1) \<Rightarrow> (Raise e, s1)
      | (Return u, s1) \<Rightarrow>
          (Return (), emit ManageWatchers (s1\<lparr>arbiter := manage_watchers env (arbiter s1)\<rparr>)))"

definition add_job ::
  "'a env \<Rightarrow> cid option \<Rightarrow> string \<Rightarrow> 'a controller \<Rightarrow> unit outcome \<times> 'a controller" where
  "add_job env cid msg s = wakeup env (s\<lparr>jobs := jobs s @ [(cid, msg)]\<rparr>)"

definition handle_message ::
  "'a env \<Rightarrow> job \<Rightarrow> 'a controller \<Rightarrow> unit outcome \<times> 'a controller" where
  "handle_message env raw_msg s =
     (case raw_msg of (cid, msg0) \<Rightarrow>
        (let msg = py_strip msg0
         in if msg = [] then
              (Return (), send_response env cid msg (JStr ''error: empty command'') False s)
            else add_job env cid msg s))"

subsection \<open>Start and stop\<close>

text \<open>
  \<^verbatim>\<open>start\<close>: binds the socket, starts the periodic callback, sets \<^verbatim>\<open>started\<close>.
  The calls on the socket, the timer, the signal handler and the arbiter have no
  handler anywhere in the source and are taken to return.
\<close>

definition start :: "'a env \<Rightarrow> 'a controller \<Rightarrow> 'a controller" where
  "start env s = (emit TimerStart (emit SocketBind s))\<lparr>started := True\<rparr>"

text \<open>
  \<^verbatim>\<open>stop\<close>: \<^verbatim>\<open>except (IOError, zmq.ZMQError): pass\<close> covers the flush and the close
  of the stream; an exception of another class leaves the method. \<^verbatim>\<open>started\<close> is
  not reset.
\<close>

definition swallowed :: "exn \<Rightarrow> bool" where
  "swallowed e = (exc_class e = IOError \<or> exc_class e = ZMQError)"

definition stop :: "'a env \<Rightarrow> 'a controller \<Rightarrow> unit outcome \<times> 'a controller" where
  "stop env s =
     (if started s then
        (let s1 = emit StreamFlush (emit TimerStop s)
         in case stream_flush env of
              Some e \<Rightarrow>
                (if swallowed e then (Return (), emit SysHdlStop (emit SocketClose s1))
                 else (Raise e, s1))
            | None \<Rightarrow>
                (let s2 = emit StreamClose s1
                 in case stream_close env of
                      Some e \<Rightarrow>
                        (if swallowed e then (Return (), emit SysHdlStop (emit SocketClose s2))
                         else (Raise e, s2))
                    | None \<Rightarrow> (Return (), emit SysHdlStop (emit SocketClose s2))))
      else (Return (), emit SysHdlStop s))"

subsection \<open>Reading a job\<close>



definition is_cast :: "'a env \<Rightarrow> string \<Rightarrow> bool" where
  "is_cast env msg =
     (case json_loads env msg of
        Some (JObj d) \<Rightarrow> dict_get d ''msg_type'' JNull = JStr ''cast''
      | _ \<Rightarrow> False)"

text \<open>
  The document \<^verbatim>\<open>dispatch\<close> passes to the transport for a command result \<open>r\<close>
  that is \<^verbatim>\<open>None\<close>, a dict or a list.
\<close>

definition success_reply :: "json \<Rightarrow> json" where
  "success_reply r =
     ok (if r = JNull then ok JNull
         else case r of JArr xs \<Rightarrow> JObj [(''results'', r)] | _ \<Rightarrow> r)"


subsection \<open>An example controller\<close>

text \<open>
  A concrete environment on which the theorems below are instantiated: a serialiser
  for documents whose strings need no escaping, a decoder given as a table of the
  message bodies used in the examples (any other body is undecodable), a registry of
  four commands, and an arbiter that is the number of running watchers.
\<close>

fun nat_digits :: "nat \<Rightarrow> string" where
  "nat_digits n =
     (if n < 10 then [''0123456789'' ! n]
      else nat_digits (n div 10) @ [''0123456789'' ! (n mod 10)])"

declare nat_digits.simps [simp del]

definition int_digits :: "int \<Rightarrow> string" where
  "int_digits i = (if i < 0 then ''-'' @ nat_digits (nat (- i)) else nat_digits (nat i))"

fun join :: "string \<Rightarrow> string list \<Rightarrow> string" where
  "join sep [] = []"
| "join sep [x] = x"
| "join sep (x # y # ys) = x @ sep @ join sep (y # ys)"

definition quote :: "string \<Rightarrow> string" where
  "quote t = [CHR 0x22] @ t @ [CHR 0x22]"

fun dumps :: "json \<Rightarrow> string" where
  "dumps JNull = ''null''"
| "dumps (JBool b) = (if b then ''true'' else ''false'')"
| "dumps (JNum i) = int_digits i"
| "dumps (JStr t) = quote t"
| "dumps (JArr xs) = ''['' @ join '', '' (map dumps xs) @ '']''"
| "dumps (JObj d) = ''{'' @ join '', '' (map (\<lambda>(k, v). quote k @ '': '' @ dumps v) d) @ ''}''"

definition example_commands :: "string \<Rightarrow> nat command option" where
  "example_commands =
     map_of
       [(''quit'', \<lparr>validate = (\<lambda>props. None), execute = (\<lambda>a props. (Inr JNull, a))\<rparr>),
        (''list'', \<lparr>validate = (\<lambda>props. None),
                   execute = (\<lambda>a props. (Inr (JArr [JStr ''a'', JStr ''b'']), a))\<rparr>),
        (''set'', \<lparr>validate = (\<lambda>props. if props = JObj []
                                        then Some (Exc MessageError ''no properties'')
                                        else None),
                  execute = (\<lambda>a props. (Inr (JObj [(''watchers'', JNum (int a))]), Suc a))\<rparr>),
        (''spawn'', \<lparr>validate = (\<lambda>props. None),
                    execute = (\<lambda>a props. (Inl (Exc OSError ''fork failed''), a))\<rparr>)]"

definition example_loads :: "string \<Rightarrow> json option" where
  \<open>example_loads =
     map_of
       [(''{}'', JObj []),
        (''{"command": "quit"}'', JObj [(''command'', JStr ''quit'')]),
        (''{"command": "QUIT", "msg_type": "cast"}'',
           JObj [(''command'', JStr ''QUIT''), (''msg_type'', JStr ''cast'')]),
        (''{"command": "nosuch"}'', JObj [(''command'', JStr ''nosuch'')]),
        (''{"command": "nosuch", "msg_type": "cast"}'',
           JObj [(''command'', JStr ''nosuch''), (''msg_type'', JStr ''cast'')]),
        (''{"command": "list"}'', JObj [(''command'', JStr ''list'')]),
        (''{"command": "set"}'', JObj [(''command'', JStr ''set'')]),
        (''{"command": "spawn"}'', JObj [(''command'', JStr ''spawn'')])]\<close>

definition example_errno :: "errno \<Rightarrow> int" where
  "example_errno en =
     (case en of
        NOT_SPECIFIED \<Rightarrow> 0
      | INVALID_JSON \<Rightarrow> 1
      | UNKNOWN_COMMAND \<Rightarrow> 2
      | MESSAGE_ERROR \<Rightarrow> 3
      | OS_ERROR \<Rightarrow> 4
      | COMMAND_ERROR \<Rightarrow> 5
      | BAD_MSG_DATA_ERROR \<Rightarrow> 6)"

definition example_env :: "nat env" where
  "example_env =
     \<lparr>json_loads = example_loads,
      json_dumps = dumps,
      errno_code = example_errno,
      repr_name = (\<lambda>v. case v of JStr t \<Rightarrow> ''u'' @ [CHR 0x27] @ t @ [CHR 0x27] | _ \<Rightarrow> dumps v),
      repr_msg = (\<lambda>m. [CHR 0x27] @ m @ [CHR 0x27]),
      format_exc = (\<lambda>e. ''Traceback (most recent call last): '' @ exc_str e),
      stream_flush = None,
      stream_close = None,
      arbiter_stop = (\<lambda>a. 0),
      manage_watchers = (\<lambda>a. a)\<rparr>"

definition example_ctl :: "nat controller" where
  "example_ctl = init example_commands 2"



lemmas example_defs =
  example_env_def example_ctl_def example_loads_def example_commands_def example_errno_def
  init_def

lemmas run_defs =
  dispatch_def execute_command_def handle_exc_def quit_check_def stop_arbiter_def
  send_error_def send_ok_def send_response_def emit_def ok_def error_def dict_get_def
  lower_def lower_char_def wakeup_def base_wakeup_def add_job_def handle_message_def
  py_strip_def is_space_def

lemmas dumps_defs = quote_def int_digits_def nat_digits.simps

section \<open>Properties\<close>

subsection \<open>Sending and stripping\<close>

lemma responses_append: "responses (xs @ ys) = responses xs @ responses ys"
  by (induction xs rule: responses.induct) simp_all

lemma send_response_eq:
  "send_response env cid msg resp cast s =
     s\<lparr>trace := trace s @
         (if cast then []
          else case cid of
            None \<Rightarrow> []
          | Some c \<Rightarrow> [Send c (case resp of JStr t \<Rightarrow> t | _ \<Rightarrow> json_dumps env resp)])\<rparr>"
  by (simp add: send_response_def emit_def split: option.split)

lemma trace_send_response:
  "trace (send_response env cid msg resp cast s) =
     trace s @ (if cast then [] else case cid of None \<Rightarrow> []
                | Some c \<Rightarrow> [Send c (case resp of JStr t \<Rightarrow> t | _ \<Rightarrow> json_dumps env resp)])"
  by (simp add: send_response_eq)

lemma send_response_fields [simp]:
  "started (send_response env cid msg resp cast s) = started s"
  "jobs (send_response env cid msg resp cast s) = jobs s"
  "commands (send_response env cid msg resp cast s) = commands s"
  "arbiter (send_response env cid msg resp cast s) = arbiter s"
  by (simp_all add: send_response_eq)

lemma responses_send_response:
  "responses (trace (send_response env cid msg resp cast s)) =
     responses (trace s) @
       (if cast then [] else case cid of None \<Rightarrow> []
        | Some c \<Rightarrow> [(c, case resp of JStr t \<Rightarrow> t | _ \<Rightarrow> json_dumps env resp)])"
  by (simp add: trace_send_response responses_append split: option.split)

lemma error_not_str [simp]: "error env reason tb en \<noteq> JStr t"
  by (simp add: error_def)

lemma exc_reply_not_str [simp]: "exc_reply env msg e \<noteq> JStr t"
  by (simp add: exc_reply_def split: exc_type.split)

lemma success_reply_not_str [simp]: "success_reply r \<noteq> JStr t"
  by (simp add: success_reply_def ok_def split: json.split)

lemma payload_structured:
  "(\<And>t. resp \<noteq> JStr t) \<Longrightarrow>
   (case resp of JStr t \<Rightarrow> t | _ \<Rightarrow> json_dumps env resp) = json_dumps env resp"
  by (cases resp) auto

lemma success_reply_null: "success_reply JNull = JObj [(''status'', JStr ''ok'')]"
  by (simp add: success_reply_def ok_def)





lemma handle_message_blank:
  "py_strip msg = [] \<Longrightarrow>
   handle_message env (cid, msg) s =
     (Return (),
      s\<lparr>trace := trace s @
          (case cid of None \<Rightarrow> [] | Some c \<Rightarrow> [Send c ''error: empty command''])\<rparr>)"
  by (simp add: handle_message_def send_response_eq split: option.split)


subsection \<open>Empty bodies\<close>

text \<open>
  Claim C7. A frame whose body is empty is answered at once: when there is an identity,
  the plain text \<^verbatim>\<open>error: empty command\<close> is handed to the transport as it is (it
  does not pass through the serialiser); without an identity nothing is sent. The
  queue, the arbiter and every other field of the controller are as before: no job is
  queued, nothing is decoded, no wakeup runs.
\<close>

theorem empty_body_answered_not_queued:
  "handle_message env (cid, []) s =
     (Return (),
      s\<lparr>trace := trace s @
          (case cid of None \<Rightarrow> [] | Some c \<Rightarrow> [Send c ''error: empty command''])\<rparr>)"
  by (rule handle_message_blank) (simp add: py_strip_def)

theorem empty_body_answered_not_queued_witness:
  "handle_message example_env (Some ''c1'', []) example_ctl =
     (Return (), example_ctl\<lparr>trace := [Send ''c1'' ''error: empty command'']\<rparr>)"
  using empty_body_answered_not_queued [of example_env "Some ''c1''" example_ctl]
  by (simp add: example_ctl_def init_def)

subsection \<open>The wakeup\<close>


text \<open>
  With an empty queue a wakeup only runs the maintenance hook; with a job at the head
  it pops that one job, and runs the hook when the dispatch returns.
\<close>

lemma wakeup_empty_queue:
  "jobs s = [] \<Longrightarrow>
   wakeup env s =
     (Return (), emit ManageWatchers (s\<lparr>arbiter := manage_watchers env (arbiter s)\<rparr>))"
  by (simp add: wakeup_def base_wakeup_def)

lemma wakeup_pops_one:
  "jobs s = job # rest \<Longrightarrow>
   wakeup env s =
     (case dispatch env job (s\<lparr>jobs := rest\<rparr>) of
        (Raise e, s1) \<Rightarrow> (Raise e, s1)
      | (Return u, s1) \<Rightarrow>
          (Return (), emit ManageWatchers (s1\<lparr>arbiter := manage_watchers env (arbiter s1)\<rparr>)))"
  by (simp add: wakeup_def base_wakeup_def)

subsection \<open>The paths of execute_command and dispatch\<close>

lemma handle_exc_eq:
  "handle_exc env cid msg cast e s =
     (Return JNull, send_response env cid msg (exc_reply env msg e) cast s)"
  by (simp add: handle_exc_def exc_reply_def send_error_def split: exc_type.split)

lemma execute_command_unknown:
  "commands s (lower n) = None \<Longrightarrow>
   execute_command env (JStr n) props cid msg cast s =
     (Return JNull,
      send_response env cid msg
        (error env (''unknown command: '' @ repr_name env (JStr n)) None UNKNOWN_COMMAND) cast s)"
  by (simp add: execute_command_def send_error_def)

lemma execute_command_invalid:
  "commands s (lower n) = Some cmd \<Longrightarrow> validate cmd props = Some e \<Longrightarrow>
   execute_command env (JStr n) props cid msg cast s =
     (Return JNull, send_response env cid msg (exc_reply env msg e) cast s)"
  by (simp add: execute_command_def handle_exc_eq)

lemma execute_command_raised:
  "commands s (lower n) = Some cmd \<Longrightarrow> validate cmd props = None \<Longrightarrow>
   execute cmd (arbiter s) props = (Inl e, a) \<Longrightarrow>
   execute_command env (JStr n) props cid msg cast s =
     (Return JNull, send_response env cid msg (exc_reply env msg e) cast (s\<lparr>arbiter := a\<rparr>))"
  by (simp add: execute_command_def handle_exc_eq)


lemma execute_command_not_string:
  "\<forall>n. cmd_name \<noteq> JStr n \<Longrightarrow>
   execute_command env cmd_name props cid msg cast s = (Raise (Exc AttributeError ''lower''), s)"
  by (cases cmd_name) (simp_all add: execute_command_def)


lemma execute_command_cast:
  "responses (trace (snd (execute_command env cn props cid msg True s))) = responses (trace s)"
  by (simp add: execute_command_def handle_exc_eq trace_send_response send_error_def
      split: json.split option.split sum.split prod.split)

lemma dispatch_returned:
  assumes "json_loads env msg = Some (JObj d)"
    and "execute_command env (dict_get d ''command'' JNull) (dict_get d ''properties'' (JObj []))
           cid msg (dict_get d ''msg_type'' JNull = JStr ''cast'') s = (Return r, s1)"
    and "r = JNull \<or> is_dict_or_list r"
  shows "dispatch env (cid, msg) s =
           quit_check env (dict_get d ''command'' JNull) cid
             (send_response env cid msg (success_reply r)
                (dict_get d ''msg_type'' JNull = JStr ''cast'') s1)"
  using assms
  by (cases r) (auto simp add: dispatch_def Let_def send_ok_def success_reply_def ok_def)

lemma dispatch_bad_result:
  assumes "json_loads env msg = Some (JObj d)"
    and "execute_command env (dict_get d ''command'' JNull) (dict_get d ''properties'' (JObj []))
           cid msg (dict_get d ''msg_type'' JNull = JStr ''cast'') s = (Return r, s1)"
    and "r \<noteq> JNull" and "\<not> is_dict_or_list r"
  shows "dispatch env (cid, msg) s =
           (Return (),
            send_response env cid msg (error env ''server error'' None BAD_MSG_DATA_ERROR)
              (dict_get d ''msg_type'' JNull = JStr ''cast'') s1)"
  using assms
  by (simp add: dispatch_def Let_def send_error_def)

lemma dispatch_raised:
  assumes "json_loads env msg = Some (JObj d)"
    and "execute_command env (dict_get d ''command'' JNull) (dict_get d ''properties'' (JObj []))
           cid msg (dict_get d ''msg_type'' JNull = JStr ''cast'') s = (Raise e, s1)"
  shows "dispatch env (cid, msg) s = (Raise e, s1)"
  using assms
  by (simp add: dispatch_def Let_def)

lemma dispatch_undecodable:
  "json_loads env msg = None \<Longrightarrow>
   dispatch env (cid, msg) s =
     (Return (),
      send_response env cid msg (error env ''json invalid'' None INVALID_JSON) False s)"
  by (simp add: dispatch_def send_error_def)


text \<open>
  A decoded dict whose \<^verbatim>\<open>command\<close> is absent or not a string: the exception of
  \<^verbatim>\<open>cmd_name.lower()\<close> leaves \<^verbatim>\<open>dispatch\<close>, and nothing has been sent.
\<close>

lemma dispatch_without_command_name:
  assumes "json_loads env msg = Some (JObj d)"
    and "\<forall>n. dict_get d ''command'' JNull \<noteq> JStr n"
  shows "dispatch env (cid, msg) s = (Raise (Exc AttributeError ''lower''), s)"
  using assms dispatch_raised [OF assms(1), of cid s "Exc AttributeError ''lower''" s]
  by (simp add: execute_command_not_string)

lemma responses_quit_check:
  "responses (trace (snd (quit_check env cn cid s))) = responses (trace s)"
  by (simp add: quit_check_def stop_arbiter_def emit_def responses_append
      split: json.split option.split)


subsection \<open>Error paths of execute_command\<close>

lemma dispatch_error_path_responses:
  assumes decoded: "json_loads env msg = Some (JObj d)"
    and call: "dict_get d ''msg_type'' JNull \<noteq> JStr ''cast''"
    and exec: "execute_command env (dict_get d ''command'' JNull)
                 (dict_get d ''properties'' (JObj [])) (Some c) msg False s =
               (Return JNull, send_response env (Some c) msg reply False s1)"
    and same: "trace s1 = trace s"
    and notstr: "\<And>t. reply \<noteq> JStr t"
  shows "responses (trace (snd (dispatch env (Some c, msg) s))) =
           responses (trace s) @
             [(c, json_dumps env reply), (c, json_dumps env (JObj [(''status'', JStr ''ok'')]))]"
proof -
  let ?s2 = "send_response env (Some c) msg reply False s1"
  from call have nocast: "(dict_get d ''msg_type'' JNull = JStr ''cast'') = False" by simp
  have "dispatch env (Some c, msg) s =
          quit_check env (dict_get d ''command'' JNull) (Some c)
            (send_response env (Some c) msg (success_reply JNull) False ?s2)"
    using dispatch_returned [OF decoded, of "Some c" s JNull ?s2] exec nocast by simp
  then have "responses (trace (snd (dispatch env (Some c, msg) s))) =
               responses (trace (send_response env (Some c) msg (success_reply JNull) False ?s2))"
    by (simp add: responses_quit_check)
  also have "\<dots> = responses (trace s) @
                [(c, json_dumps env reply), (c, json_dumps env (JObj [(''status'', JStr ''ok'')]))]"
    using same payload_structured [of reply env, OF notstr]
    by (simp add: responses_send_response success_reply_null)
  finally show ?thesis .
qed

text \<open>
  Claim C9. Take a job with an identity whose message decodes to a dict with a string
  command name and a \<^verbatim>\<open>msg_type\<close> other than \<^verbatim>\<open>"cast"\<close>. On each error path of
  \<^verbatim>\<open>execute_command\<close> (the name is not in the registry; \<^verbatim>\<open>validate\<close> raises;
  \<^verbatim>\<open>execute\<close> raises) the dispatch hands exactly two responses to the transport for
  that identity, in this order: the error document of that path (the unknown-command
  error, or the document of the \<^verbatim>\<open>except\<close> clause that takes the exception), then
  the minimal success document \<^verbatim>\<open>{"status": "ok"}\<close>.
\<close>

theorem error_path_sends_error_then_ok:
  assumes decoded: "json_loads env msg = Some (JObj d)"
    and name: "dict_get d ''command'' JNull = JStr n"
    and call: "dict_get d ''msg_type'' JNull \<noteq> JStr ''cast''"
  shows "(commands s (lower n) = None \<longrightarrow>
            responses (trace (snd (dispatch env (Some c, msg) s))) =
              responses (trace s) @
                [(c, json_dumps env
                       (error env (''unknown command: '' @ repr_name env (JStr n)) None
                          UNKNOWN_COMMAND)),
                 (c, json_dumps env (JObj [(''status'', JStr ''ok'')]))])
       \<and> (\<forall>cmd e. commands s (lower n) = Some cmd
               \<and> validate cmd (dict_get d ''properties'' (JObj [])) = Some e \<longrightarrow>
            responses (trace (snd (dispatch env (Some c, msg) s))) =
              responses (trace s) @
                [(c, json_dumps env (exc_reply env msg e)),
                 (c, json_dumps env (JObj [(''status'', JStr ''ok'')]))])
       \<and> (\<forall>cmd e a. commands s (lower n) = Some cmd
               \<and> validate cmd (dict_get d ''properties'' (JObj [])) = None
               \<and> execute cmd (arbiter s) (dict_get d ''properties'' (JObj [])) = (Inl e, a) \<longrightarrow>
            responses (trace (snd (dispatch env (Some c, msg) s))) =
              responses (trace s) @
                [(c, json_dumps env (exc_reply env msg e)),
                 (c, json_dumps env (JObj [(''status'', JStr ''ok'')]))])"
proof (intro conjI allI impI)
  assume "commands s (lower n) = None"
  then show "responses (trace (snd (dispatch env (Some c, msg) s))) =
              responses (trace s) @
                [(c, json_dumps env
                       (error env (''unknown command: '' @ repr_name env (JStr n)) None
                          UNKNOWN_COMMAND)),
                 (c, json_dumps env (JObj [(''status'', JStr ''ok'')]))]"
    by (intro dispatch_error_path_responses [OF decoded call, where ?s1.0 = s])
       (simp_all add: name execute_command_unknown)
next
  fix cmd e
  assume "commands s (lower n) = Some cmd
            \<and> validate cmd (dict_get d ''properties'' (JObj [])) = Some e"
  then show "responses (trace (snd (dispatch env (Some c, msg) s))) =
              responses (trace s) @
                [(c, json_dumps env (exc_reply env msg e)),
                 (c, json_dumps env (JObj [(''status'', JStr ''ok'')]))]"
    by (intro dispatch_error_path_responses [OF decoded call, where ?s1.0 = s])
       (simp_all add: name execute_command_invalid)
next
  fix cmd e a
  assume "commands s (lower n) = Some cmd
            \<and> validate cmd (dict_get d ''properties'' (JObj [])) = None
            \<and> execute cmd (arbiter s) (dict_get d ''properties'' (JObj [])) = (Inl e, a)"
  then show "responses (trace (snd (dispatch env (Some c, msg) s))) =
              responses (trace s) @
                [(c, json_dumps env (exc_reply env msg e)),
                 (c, json_dumps env (JObj [(''status'', JStr ''ok'')]))]"
    by (intro dispatch_error_path_responses [OF decoded call, where ?s1.0 = "s\<lparr>arbiter := a\<rparr>"])
       (simp_all add: name execute_command_raised)
qed

text \<open>
  The three paths on the example controller: an unknown command, a command whose
  validation raises \<^verbatim>\<open>MessageError\<close>, a command whose execution raises
  \<^verbatim>\<open>OSError\<close>.
\<close>

theorem error_path_sends_error_then_ok_witness:
  \<open>responses (trace (snd (dispatch example_env (Some ''c1'', ''{"command": "nosuch"}'') example_ctl))) =
     [(''c1'', json_dumps example_env
                (error example_env (''unknown command: '' @ repr_name example_env (JStr ''nosuch''))
                   None UNKNOWN_COMMAND)),
      (''c1'', ''{"status": "ok"}'')]
   \<and> responses (trace (snd (dispatch example_env (Some ''c1'', ''{"command": "set"}'') example_ctl))) =
     [(''c1'', ''{"status": "error", "reason": "no properties", "traceback": null, "errno": 3}''),
      (''c1'', ''{"status": "ok"}'')]
   \<and> responses (trace (snd (dispatch example_env (Some ''c1'', ''{"command": "spawn"}'') example_ctl))) =
     [(''c1'', ''{"status": "error", "reason": "fork failed", "traceback": null, "errno": 4}''),
      (''c1'', ''{"status": "ok"}'')]\<close>
proof -
  have ok_text: \<open>json_dumps example_env (JObj [(''status'', JStr ''ok'')]) = ''{"status": "ok"}''\<close>
    by (simp add: example_env_def dumps_defs)
  have empty: "responses (trace example_ctl) = []"
    by (simp add: example_ctl_def init_def)
  have a: \<open>json_loads example_env ''{"command": "nosuch"}'' = Some (JObj [(''command'', JStr ''nosuch'')])\<close>
    by (simp add: example_defs)
  have a1: "dict_get [(''command'', JStr ''nosuch'')] ''command'' JNull = JStr ''nosuch''"
    and a2: "dict_get [(''command'', JStr ''nosuch'')] ''msg_type'' JNull \<noteq> JStr ''cast''"
    by (simp_all add: dict_get_def)
  have a3: "commands example_ctl (lower ''nosuch'') = None"
    by (simp add: example_defs lower_def lower_char_def)
  note first = error_path_sends_error_then_ok [OF a a1 a2, of example_ctl "''c1''",
      THEN conjunct1, rule_format, OF a3]
  have b: \<open>json_loads example_env ''{"command": "set"}'' = Some (JObj [(''command'', JStr ''set'')])\<close>
    by (simp add: example_defs)
  have b1: "dict_get [(''command'', JStr ''set'')] ''command'' JNull = JStr ''set''"
    and b2: "dict_get [(''command'', JStr ''set'')] ''msg_type'' JNull \<noteq> JStr ''cast''"
    by (simp_all add: dict_get_def)
  have b3: "commands example_ctl (lower ''set'') = Some (the (example_commands ''set''))
      \<and> validate (the (example_commands ''set''))
          (dict_get [(''command'', JStr ''set'')] ''properties'' (JObj [])) =
        Some (Exc MessageError ''no properties'')"
    by (simp add: example_defs lower_def lower_char_def dict_get_def)
  note second = error_path_sends_error_then_ok [OF b b1 b2, of example_ctl "''c1''",
      THEN conjunct2, THEN conjunct1, rule_format, OF b3]
  have c: \<open>json_loads example_env ''{"command": "spawn"}'' = Some (JObj [(''command'', JStr ''spawn'')])\<close>
    by (simp add: example_defs)
  have c1: "dict_get [(''command'', JStr ''spawn'')] ''command'' JNull = JStr ''spawn''"
    and c2: "dict_get [(''command'', JStr ''spawn'')] ''msg_type'' JNull \<noteq> JStr ''cast''"
    by (simp_all add: dict_get_def)
  have c3: "commands example_ctl (lower ''spawn'') = Some (the (example_commands ''spawn''))
      \<and> validate (the (example_commands ''spawn''))
          (dict_get [(''command'', JStr ''spawn'')] ''properties'' (JObj [])) = None
      \<and> execute (the (example_commands ''spawn'')) (arbiter example_ctl)
          (dict_get [(''command'', JStr ''spawn'')] ''properties'' (JObj [])) =
        (Inl (Exc OSError ''fork failed''), 2)"
    by (simp add: example_defs lower_def lower_char_def dict_get_def)
  note third = error_path_sends_error_then_ok [OF c c1 c2, of example_ctl "''c1''",
      THEN conjunct2, THEN conjunct2, rule_format, OF c3]
  have m: \<open>json_dumps example_env
             (exc_reply example_env ''{"command": "set"}'' (Exc MessageError ''no properties'')) =
      ''{"status": "error", "reason": "no properties", "traceback": null, "errno": 3}''\<close>
    by (simp add: example_env_def example_errno_def exc_reply_def error_def dumps_defs)
  have o: \<open>json_dumps example_env
             (exc_reply example_env ''{"command": "spawn"}'' (Exc OSError ''fork failed'')) =
      ''{"status": "error", "reason": "fork failed", "traceback": null, "errno": 4}''\<close>
    by (simp add: example_env_def example_errno_def exc_reply_def error_def dumps_defs)
  from first second third show ?thesis
    unfolding ok_text empty m o by simp
qed

text \<open>
  Claim C1. The claim says that the unknown-command error is the only response sent
  for the message. On the example controller the message
  \<^verbatim>\<open>{"command": "nosuch"}\<close> from identity \<^verbatim>\<open>c1\<close> is answered twice: the
  error document with the code of \<^verbatim>\<open>UNKNOWN_COMMAND\<close> and a reason that ends with
  \<^verbatim>\<open>%r\<close> of the name, then \<^verbatim>\<open>{"status": "ok"}\<close>. \<^verbatim>\<open>execute_command\<close>
  returns what \<^verbatim>\<open>send_error\<close> returns, \<^verbatim>\<open>None\<close>, which \<^verbatim>\<open>dispatch\<close>
  takes for a command that succeeded with no data.
\<close>

theorem unknown_command_answered_twice:
  \<open>dispatch example_env (Some ''c1'', ''{"command": "nosuch"}'') example_ctl =
     (Return (),
      example_ctl\<lparr>trace :=
        [Send ''c1''
           (json_dumps example_env
              (error example_env (''unknown command: '' @ repr_name example_env (JStr ''nosuch''))
                 None UNKNOWN_COMMAND)),
         Send ''c1'' ''{"status": "ok"}'']\<rparr>)\<close>
  by (simp add: example_defs run_defs dumps_defs)

subsection \<open>A message without a command name\<close>

text \<open>
  Claim C2. The claim says that \<^verbatim>\<open>dispatch\<close> never raises. On the example
  controller the job \<^verbatim>\<open>(c1, {})\<close> decodes to an empty dict, \<^verbatim>\<open>cmd_name\<close> is
  \<^verbatim>\<open>None\<close>, and \<^verbatim>\<open>cmd_name.lower()\<close> raises \<^verbatim>\<open>AttributeError\<close> inside a
  \<^verbatim>\<open>try\<close> that catches \<^verbatim>\<open>KeyError\<close> only: the exception leaves
  \<^verbatim>\<open>execute_command\<close> and \<^verbatim>\<open>dispatch\<close>.
\<close>

theorem dispatch_raises_without_command:
  \<open>dispatch example_env (Some ''c1'', ''{}'') example_ctl =
     (Raise (Exc AttributeError ''lower''), example_ctl)\<close>
  by (simp add: example_defs run_defs)

text \<open>
  Claim C5. The claim says that the frame \<^verbatim>\<open>{}\<close> is answered with an
  \<^verbatim>\<open>UNKNOWN_COMMAND\<close> error. On the example controller the frame from identity
  \<^verbatim>\<open>c1\<close> is queued, popped and dispatched, the dispatch raises, and the controller
  is left as it was: nothing has been handed to the transport.
\<close>

theorem empty_document_gets_no_response:
  \<open>handle_message example_env (Some ''c1'', ''{}'') example_ctl =
     (Raise (Exc AttributeError ''lower''), example_ctl)
   \<and> responses (trace example_ctl) = []\<close>
  by (simp add: example_defs run_defs)

text \<open>
  Claim C6. The claim says that every wakeup ends with the maintenance hook. A wakeup
  pops at most one job (\<open>wakeup_empty_queue\<close>, \<open>wakeup_pops_one\<close>) and runs the hook
  when the dispatch returns; when the dispatch raises, the exception leaves
  \<^verbatim>\<open>Controller.wakeup\<close> before \<^verbatim>\<open>manage_watchers\<close> is called. On the example
  controller, with the jobs \<^verbatim>\<open>{}\<close> and \<^verbatim>\<open>{"command": "list"}\<close> queued, the
  wakeup pops the first, raises, and the trace has no call of the hook.
\<close>

theorem wakeup_skips_maintenance_when_dispatch_raises:
  \<open>wakeup example_env
     (example_ctl\<lparr>jobs := [(Some ''c1'', ''{}''), (Some ''c2'', ''{"command": "list"}'')]\<rparr>) =
     (Raise (Exc AttributeError ''lower''),
      example_ctl\<lparr>jobs := [(Some ''c2'', ''{"command": "list"}'')]\<rparr>)
   \<and> trace example_ctl = []\<close>
  by (simp add: example_defs run_defs)

subsection \<open>Quit\<close>






text \<open>
  An error path of \<^verbatim>\<open>execute_command\<close> also ends in the \<^verbatim>\<open>quit\<close> test: with an
  empty registry, \<^verbatim>\<open>{"command": "quit"}\<close> is answered with the unknown-command
  error, then with \<^verbatim>\<open>{"status": "ok"}\<close>, and \<^verbatim>\<open>arbiter.stop()\<close> is called.
\<close>

lemma failed_quit_still_stops:
  \<open>dispatch example_env (Some ''c1'', ''{"command": "quit"}'')
     (example_ctl\<lparr>commands := Map.empty\<rparr>) =
     (Return (),
      example_ctl\<lparr>commands := Map.empty, arbiter := 0,
        trace :=
          [Send ''c1''
             (json_dumps example_env
                (error example_env (''unknown command: '' @ repr_name example_env (JStr ''quit''))
                   None UNKNOWN_COMMAND)),
           Send ''c1'' ''{"status": "ok"}'', StreamFlush, ArbiterStop]\<rparr>)\<close>
  by (simp add: example_defs run_defs dumps_defs)

subsection \<open>Cast\<close>

lemma dispatch_cast_silent:
  assumes "is_cast env msg"
  shows "responses (trace (snd (dispatch env (cid, msg) s))) = responses (trace s)"
proof -
  from assms obtain d where decoded: "json_loads env msg = Some (JObj d)"
    and cast: "(dict_get d ''msg_type'' JNull = JStr ''cast'') = True"
    by (auto simp add: is_cast_def split: option.splits json.splits)
  let ?cn = "dict_get d ''command'' JNull"
  let ?ex = "execute_command env ?cn (dict_get d ''properties'' (JObj [])) cid msg True s"
  obtain r s1 where ex: "?ex = (r, s1)" by (cases ?ex)
  with execute_command_cast [of env ?cn "dict_get d ''properties'' (JObj [])" cid msg s]
  have s1: "responses (trace s1) = responses (trace s)" by simp
  show ?thesis
  proof (cases r)
    case (Raise e)
    with ex decoded cast have "dispatch env (cid, msg) s = (Raise e, s1)"
      using dispatch_raised [OF decoded, of cid s e s1] by simp
    with s1 show ?thesis by simp
  next
    case (Return x)
    show ?thesis
    proof (cases "x = JNull \<or> is_dict_or_list x")
      case True
      with ex Return cast have "dispatch env (cid, msg) s =
          quit_check env ?cn cid (send_response env cid msg (success_reply x) True s1)"
        using dispatch_returned [OF decoded, of cid s x s1] by simp
      with s1 show ?thesis
        by (simp add: responses_quit_check responses_send_response)
    next
      case False
      with ex Return cast have "dispatch env (cid, msg) s =
          (Return (), send_response env cid msg (error env ''server error'' None BAD_MSG_DATA_ERROR)
              True s1)"
        using dispatch_bad_result [OF decoded, of cid s x s1] by simp
      with s1 show ?thesis
        by (simp add: responses_send_response)
    qed
  qed
qed

text \<open>
  Claim C4, as the code has it. A message that decodes to a dict whose
  \<^verbatim>\<open>msg_type\<close> is \<^verbatim>\<open>"cast"\<close> is never answered by its dispatch, whatever the
  lookup, the validation and the execution do. A body that does not decode has no
  \<^verbatim>\<open>msg_type\<close> to read: with an identity it is answered with the
  \<^verbatim>\<open>INVALID_JSON\<close> error.
\<close>

theorem cast_is_never_answered:
  "(is_cast env msg \<longrightarrow>
      responses (trace (snd (dispatch env (cid, msg) s))) = responses (trace s))
   \<and> (json_loads env msg = None \<longrightarrow>
        dispatch env (Some c, msg) s =
          (Return (),
           emit (Send c (json_dumps env (error env ''json invalid'' None INVALID_JSON))) s))"
  by (simp add: dispatch_cast_silent dispatch_undecodable send_response_def payload_structured)

theorem cast_is_never_answered_witness:
  \<open>is_cast example_env ''{"command": "nosuch", "msg_type": "cast"}''
   \<and> responses (trace (snd (dispatch example_env
         (Some ''c1'', ''{"command": "nosuch", "msg_type": "cast"}'') example_ctl))) = []
   \<and> json_loads example_env ''{"msg_type": "cast", "command": '' = None
   \<and> dispatch example_env (Some ''c1'', ''{"msg_type": "cast", "command": '') example_ctl =
       (Return (),
        example_ctl\<lparr>trace :=
          [Send ''c1''
             ''{"status": "error", "reason": "json invalid", "traceback": null, "errno": 1}'']\<rparr>)\<close>
proof -
  have a: \<open>is_cast example_env ''{"command": "nosuch", "msg_type": "cast"}''\<close>
    by (simp add: is_cast_def example_defs dict_get_def)
  have b: \<open>json_loads example_env ''{"msg_type": "cast", "command": '' = None\<close>
    by (simp add: example_defs)
  have empty: "responses (trace example_ctl) = []"
    by (simp add: example_ctl_def init_def)
  have payload: \<open>json_dumps example_env (error example_env ''json invalid'' None INVALID_JSON) =
      ''{"status": "error", "reason": "json invalid", "traceback": null, "errno": 1}''\<close>
    by (simp add: example_env_def example_errno_def error_def dumps_defs)
  note silent = cast_is_never_answered [of example_env _ "Some ''c1''" example_ctl,
      THEN conjunct1, rule_format, OF a]
  note answered = cast_is_never_answered [of example_env _ None example_ctl "''c1''",
      THEN conjunct2, rule_format, OF b]
  from a b silent answered show ?thesis
    unfolding empty payload by (simp add: emit_def example_ctl_def init_def)
qed

text \<open>
  Claim C4 as stated fails for an undecodable body: the truncated message
  \<^verbatim>\<open>{"msg_type": "cast", "command": \<close> from identity \<^verbatim>\<open>c1\<close> is answered.
\<close>

theorem malformed_cast_is_answered:
  \<open>dispatch example_env (Some ''c1'', ''{"msg_type": "cast", "command": '') example_ctl =
     (Return (),
      example_ctl\<lparr>trace :=
        [Send ''c1''
           ''{"status": "error", "reason": "json invalid", "traceback": null, "errno": 1}'']\<rparr>)\<close>
  by (simp add: example_defs run_defs dumps_defs)

subsection \<open>Stop\<close>

text \<open>
  Claim C8, as the code has it. On a controller that was never started, \<^verbatim>\<open>stop\<close>
  leaves the timer, the stream and the socket alone and stops the signal handler. On
  a started controller, when the flush and the close of the stream return or raise
  \<^verbatim>\<open>IOError\<close> or \<^verbatim>\<open>ZMQError\<close>, \<^verbatim>\<open>stop\<close> returns after these calls, in
  order: the timer is stopped, the stream is flushed, the stream is closed (skipped
  when the flush raised), the socket is closed, the signal handler is stopped. In
  every case \<^verbatim>\<open>stop\<close> changes no field of the controller (\<^verbatim>\<open>started\<close> stays as
  it was), so a second call makes the same calls again.
\<close>

theorem stop_teardown:
  "(\<not> started s \<longrightarrow> stop env s = (Return (), emit SysHdlStop s))
   \<and> (started s \<and> (\<forall>e. stream_flush env = Some e \<longrightarrow> swallowed e)
        \<and> (\<forall>e. stream_close env = Some e \<longrightarrow> swallowed e) \<longrightarrow>
        stop env s =
          (Return (),
           s\<lparr>trace := trace s @ [TimerStop, StreamFlush]
                @ (if stream_flush env = None then [StreamClose] else [])
                @ [SocketClose, SysHdlStop]\<rparr>))
   \<and> (snd (stop env s))\<lparr>trace := trace s\<rparr> = s"
  by (auto simp add: stop_def emit_def Let_def split: option.split)

theorem stop_teardown_witness:
  "\<not> started example_ctl
   \<and> stop example_env example_ctl = (Return (), example_ctl\<lparr>trace := [SysHdlStop]\<rparr>)
   \<and> started (start example_env example_ctl)
   \<and> stop (example_env\<lparr>stream_flush := Some (Exc IOError ''broken pipe'')\<rparr>)
        (start example_env example_ctl) =
       (Return (),
        example_ctl\<lparr>started := True,
          trace := [SocketBind, TimerStart, TimerStop, StreamFlush, SocketClose, SysHdlStop]\<rparr>)
   \<and> stop example_env (start example_env example_ctl) =
       (Return (),
        example_ctl\<lparr>started := True,
          trace := [SocketBind, TimerStart, TimerStop, StreamFlush, StreamClose, SocketClose,
                    SysHdlStop]\<rparr>)"
proof -
  have off: "\<not> started example_ctl"
    by (simp add: example_ctl_def init_def)
  note never = stop_teardown [of example_ctl example_env, THEN conjunct1, rule_format, OF off]
  let ?broken = "example_env\<lparr>stream_flush := Some (Exc IOError ''broken pipe'')\<rparr>"
  have on_broken: "started (start example_env example_ctl)
      \<and> (\<forall>e. stream_flush ?broken = Some e \<longrightarrow> swallowed e)
      \<and> (\<forall>e. stream_close ?broken = Some e \<longrightarrow> swallowed e)"
    by (simp add: start_def emit_def swallowed_def example_env_def)
  note broken = stop_teardown [of "start example_env example_ctl" ?broken,
      THEN conjunct2, THEN conjunct1, rule_format, OF on_broken]
  have on_fine: "started (start example_env example_ctl)
      \<and> (\<forall>e. stream_flush example_env = Some e \<longrightarrow> swallowed e)
      \<and> (\<forall>e. stream_close example_env = Some e \<longrightarrow> swallowed e)"
    by (simp add: start_def emit_def example_env_def)
  note fine = stop_teardown [of "start example_env example_ctl" example_env,
      THEN conjunct2, THEN conjunct1, rule_format, OF on_fine]
  from off never broken fine show ?thesis
    by (simp add: start_def emit_def example_ctl_def init_def example_env_def)
qed

text \<open>
  Claim C8 as stated fails on a controller that was never started: \<^verbatim>\<open>stop\<close> is
  not without effect there, it calls \<^verbatim>\<open>sys_hdl.stop()\<close>.
\<close>

theorem stop_before_start_stops_signal_handler:
  "stop example_env example_ctl = (Return (), example_ctl\<lparr>trace := [SysHdlStop]\<rparr>)"
  by (simp add: example_defs stop_def emit_def)

subsection \<open>Stripping\<close>



end
